theory Spec2Isabelle
  imports Main
begin

section \<open>The Enet coordinator: event dispatch and button decoding\<close>

text \<open>
  A shallow embedding of \<^verbatim>\<open>custom_components/enet/__init__.py\<close>: the registry built by
  \<^verbatim>\<open>setup_event_listeners\<close>, the batch handler \<^verbatim>\<open>handle_event\<close> and the poll loop
  \<^verbatim>\<open>_async_update_data\<close>. Every subscript, \<^verbatim>\<open>len\<close>, comparison and \<^verbatim>\<open>+=\<close> of the source
  that Python can refuse is a branch returning the exception it raises.
\<close>

subsection \<open>Decoded JSON values and the Python operations applied to them\<close>

text \<open>
  What \<^verbatim>\<open>hub.get_events()\<close> hands over is decoded JSON. Objects are association lists
  with string keys, read with \<open>map_of\<close>; their keys are taken to be distinct, as the keys
  of a Python dict are. JSON numbers are the integers; a float payload is outside this
  model. Strings are ASCII, so that \<open>length\<close> counts what \<^verbatim>\<open>len\<close> counts.
\<close>

datatype pyval =
    PNone
  | PBool bool
  | PInt int
  | PStr string
  | PList "pyval list"
  | PDict "(string \<times> pyval) list"

datatype exn =
    KeyError
  | TypeError
  | IndexError
  | ChannelError string
  | UpdateFailed exn

text \<open>\<^verbatim>\<open>if event:\<close>, the truth value of a decoded JSON value.\<close>

fun truthy :: "pyval \<Rightarrow> bool" where
  "truthy PNone = False"
| "truthy (PBool b) = b"
| "truthy (PInt n) = (n \<noteq> 0)"
| "truthy (PStr s) = (s \<noteq> [])"
| "truthy (PList xs) = (xs \<noteq> [])"
| "truthy (PDict kvs) = (kvs \<noteq> [])"

text \<open>\<^verbatim>\<open>obj["key"]\<close>: only a dict takes a string subscript; a missing key is a KeyError.\<close>

fun getitem_str :: "pyval \<Rightarrow> string \<Rightarrow> exn + pyval" where
  "getitem_str (PDict kvs) k = (case map_of kvs k of None \<Rightarrow> Inl KeyError | Some v \<Rightarrow> Inr v)"
| "getitem_str PNone k = Inl TypeError"
| "getitem_str (PBool b) k = Inl TypeError"
| "getitem_str (PInt n) k = Inl TypeError"
| "getitem_str (PStr s) k = Inl TypeError"
| "getitem_str (PList xs) k = Inl TypeError"

text \<open>
  \<^verbatim>\<open>obj[0]\<close> and \<^verbatim>\<open>obj[1]\<close>: a list or a string is indexed, out of range is an IndexError;
  a dict with string keys has no key \<^verbatim>\<open>0\<close> or \<^verbatim>\<open>1\<close>.
\<close>

fun getitem_int :: "pyval \<Rightarrow> nat \<Rightarrow> exn + pyval" where
  "getitem_int (PList xs) i = (if i < length xs then Inr (xs ! i) else Inl IndexError)"
| "getitem_int (PStr s) i = (if i < length s then Inr (PStr [s ! i]) else Inl IndexError)"
| "getitem_int (PDict kvs) i = Inl KeyError"
| "getitem_int PNone i = Inl TypeError"
| "getitem_int (PBool b) i = Inl TypeError"
| "getitem_int (PInt n) i = Inl TypeError"

fun py_len :: "pyval \<Rightarrow> exn + nat" where
  "py_len (PList xs) = Inr (length xs)"
| "py_len (PStr s) = Inr (length s)"
| "py_len (PDict kvs) = Inr (length kvs)"
| "py_len PNone = Inl TypeError"
| "py_len (PBool b) = Inl TypeError"
| "py_len (PInt n) = Inl TypeError"

text \<open>\<^verbatim>\<open>for event in obj\<close>: the items of a list, the characters of a string, the keys of a dict.\<close>

fun py_iter :: "pyval \<Rightarrow> exn + pyval list" where
  "py_iter (PList xs) = Inr xs"
| "py_iter (PStr s) = Inr (map (\<lambda>ch. PStr [ch]) s)"
| "py_iter (PDict kvs) = Inr (map (\<lambda>kv. PStr (fst kv)) kvs)"
| "py_iter PNone = Inl TypeError"
| "py_iter (PBool b) = Inl TypeError"
| "py_iter (PInt n) = Inl TypeError"

text \<open>\<^verbatim>\<open>subtype += 1\<close>: defined on int and bool (\<^verbatim>\<open>True + 1 == 2\<close>), a TypeError otherwise.\<close>

fun py_iadd_one :: "pyval \<Rightarrow> exn + pyval" where
  "py_iadd_one (PInt n) = Inr (PInt (n + 1))"
| "py_iadd_one (PBool b) = Inr (PInt (if b then 2 else 1))"
| "py_iadd_one PNone = Inl TypeError"
| "py_iadd_one (PStr s) = Inl TypeError"
| "py_iadd_one (PList xs) = Inl TypeError"
| "py_iadd_one (PDict kvs) = Inl TypeError"

text \<open>\<^verbatim>\<open>value > 0\<close>: defined on int and bool, a TypeError otherwise.\<close>

fun py_gt_zero :: "pyval \<Rightarrow> exn + bool" where
  "py_gt_zero (PInt n) = Inr (0 < n)"
| "py_gt_zero (PBool b) = Inr b"
| "py_gt_zero PNone = Inl TypeError"
| "py_gt_zero (PStr s) = Inl TypeError"
| "py_gt_zero (PList xs) = Inl TypeError"
| "py_gt_zero (PDict kvs) = Inl TypeError"

subsection \<open>Constants of the module\<close>

definition EVENT_TYPE_OUTPUT_DEVICE_FUNCTION_CALLED :: string where
  "EVENT_TYPE_OUTPUT_DEVICE_FUNCTION_CALLED = ''outputDeviceFunctionCalled''"

definition EVENT_TYPE_INITIAL_PRESS :: string where
  "EVENT_TYPE_INITIAL_PRESS = ''initial_press''"

definition EVENT_TYPE_SHORT_RELEASE :: string where
  "EVENT_TYPE_SHORT_RELEASE = ''short_release''"

definition VALUE_TYPE_ROCKER_STATE :: string where
  "VALUE_TYPE_ROCKER_STATE = ''VT_ROCKER_STATE''"

definition VALUE_TYPE_ROCKER_SWITCH_TIME :: string where
  "VALUE_TYPE_ROCKER_SWITCH_TIME = ''VT_ROCKER_SWITCH_TIME''"

subsection \<open>Channels, the coordinator and what it does to the host\<close>

text \<open>
  Modelled from the spec: the channel classes of \<^verbatim>\<open>aioenet\<close> are not part of the sources.
  A channel object is an \<^verbatim>\<open>ActuatorChannel\<close>, a \<^verbatim>\<open>SensorChannel\<close> or an event channel (any
  other class); it is truthy, it holds a cached state, and through \<^verbatim>\<open>.device\<close> it gives
  the host's device entry id and the device uid. Channel objects live in a heap and the
  registry holds references, so that two function uids may address one object.
\<close>

datatype channel_class = ActuatorChannel | SensorChannel | EventChannel

record 's channel =
  cls :: channel_class
  hass_device_entry_id :: string
  device_uid :: string
  cached :: 's

type_synonym chan_ref = nat

record bus_data =
  device_id :: string
  unique_id :: string
  type :: string
  subtype :: pyval

text \<open>
  The calls the coordinator makes on its collaborators, oldest first: the two warnings,
  \<^verbatim>\<open>device.update_values\<close>, \<^verbatim>\<open>async_update_listeners\<close>, \<^verbatim>\<open>hass.bus.async_fire(EVENT_ENET, _)\<close>
  and \<^verbatim>\<open>_LOGGER.exception\<close>. Debug records are left out. The logger and the host
  (listeners, bus) are taken to return normally.
\<close>

datatype effect =
    WarnNoDevice pyval
  | WarnExpected2 pyval
  | UpdateValues chan_ref pyval pyval
  | UpdateListeners
  | BusFire bus_data
  | LogException pyval exn

record 's coordinator =
  function_uid_map :: "string \<rightharpoonup> chan_ref"
  heap :: "chan_ref \<Rightarrow> 's channel"
  effects :: "effect list"

text \<open>\<^verbatim>\<open>__init__\<close>: the registry starts empty.\<close>

definition init_coordinator :: "(chan_ref \<Rightarrow> 's channel) \<Rightarrow> 's coordinator" where
  "init_coordinator h = \<lparr>function_uid_map = Map.empty, heap = h, effects = []\<rparr>"

text \<open>
  \<^verbatim>\<open>self.function_uid_map.get(function_uid)\<close>: the keys are strings, so a number, a bool
  or \<^verbatim>\<open>None\<close> finds nothing; a list or a dict is unhashable.
\<close>

fun map_get :: "(string \<rightharpoonup> chan_ref) \<Rightarrow> pyval \<Rightarrow> exn + chan_ref option" where
  "map_get m (PStr s) = Inr (m s)"
| "map_get m PNone = Inr None"
| "map_get m (PBool b) = Inr None"
| "map_get m (PInt n) = Inr None"
| "map_get m (PList xs) = Inl TypeError"
| "map_get m (PDict kvs) = Inl TypeError"

subsection \<open>\<^verbatim>\<open>setup_event_listeners\<close>\<close>

text \<open>
  A device as the registry construction sees it: the dict its
  \<^verbatim>\<open>get_function_uids_for_event()\<close> returns, and whether awaiting its
  \<^verbatim>\<open>register_events()\<close> returns (\<open>None\<close>) or raises.
\<close>

record device =
  get_function_uids_for_event :: "string \<rightharpoonup> chan_ref"
  register_events :: "exn option"

fun setup_event_listeners :: "'s coordinator \<Rightarrow> device list \<Rightarrow> exn option \<times> 's coordinator" where
  "setup_event_listeners c [] = (None, c)"
| "setup_event_listeners c (d # ds) =
     (let c1 = c\<lparr>function_uid_map := function_uid_map c ++ get_function_uids_for_event d\<rparr>
      in case register_events d of
           Some e \<Rightarrow> (Some e, c1)
         | None \<Rightarrow> setup_event_listeners c1 ds)"

subsection \<open>\<^verbatim>\<open>handle_event\<close>\<close>

text \<open>
  The \<^verbatim>\<open>else\<close> branch of the loop body (lines 135 to 160): \<open>None\<close> is the
  \<^verbatim>\<open>continue\<close> after the warning, \<open>Some\<close> the dict given to the bus.
\<close>

definition decode_button :: "'s channel \<Rightarrow> pyval \<Rightarrow> pyval \<Rightarrow> exn + bus_data option" where
  "decode_button device data values =
     (case getitem_str data ''channelNumber'' of Inl e \<Rightarrow> Inl e | Inr subtype0 \<Rightarrow>
     (case py_len values of Inl e \<Rightarrow> Inl e | Inr n \<Rightarrow>
      if n \<noteq> 2 then Inr None else
     (case getitem_int values 0 of Inl e \<Rightarrow> Inl e | Inr v0 \<Rightarrow>
     (case getitem_str v0 ''valueTypeID'' of Inl e \<Rightarrow> Inl e | Inr t0 \<Rightarrow>
     (case (if t0 = PStr VALUE_TYPE_ROCKER_STATE
            then (case getitem_str v0 ''value'' of Inl e \<Rightarrow> Inl e
                  | Inr x0 \<Rightarrow> if x0 = PStr ''DOWN_BUTTON'' then py_iadd_one subtype0
                             else Inr subtype0)
            else Inr subtype0) of Inl e \<Rightarrow> Inl e | Inr subtype1 \<Rightarrow>
     (case getitem_int values 1 of Inl e \<Rightarrow> Inl e | Inr v1 \<Rightarrow>
     (case getitem_str v1 ''valueTypeID'' of Inl e \<Rightarrow> Inl e | Inr t1 \<Rightarrow>
     (case (if t1 = PStr VALUE_TYPE_ROCKER_SWITCH_TIME
            then (case getitem_str v1 ''value'' of Inl e \<Rightarrow> Inl e
                  | Inr x1 \<Rightarrow> (case py_gt_zero x1 of Inl e \<Rightarrow> Inl e
                       | Inr b \<Rightarrow> Inr (if b then EVENT_TYPE_SHORT_RELEASE
                                       else EVENT_TYPE_INITIAL_PRESS)))
            else Inr EVENT_TYPE_INITIAL_PRESS) of Inl e \<Rightarrow> Inl e | Inr event_type \<Rightarrow>
      Inr (Some \<lparr>device_id = hass_device_entry_id device, unique_id = device_uid device,
                 type = event_type, subtype = subtype1\<rparr>)))))))))"

text \<open>
  The body of the \<^verbatim>\<open>for\<close> loop on one event. \<open>update_values\<close> is the method of the
  stateful channel classes, which are not part of the sources: it is a parameter, given
  the function uid, the values and the cached state, and returning the new cached state
  or raising.
\<close>

definition handle_one ::
  "(pyval \<Rightarrow> pyval \<Rightarrow> 's \<Rightarrow> exn + 's) \<Rightarrow> 's coordinator \<Rightarrow> pyval \<Rightarrow> exn + 's coordinator" where
  "handle_one update_values c event =
     (case getitem_str event ''event'' of Inl e \<Rightarrow> Inl e | Inr kind \<Rightarrow>
      if kind \<noteq> PStr EVENT_TYPE_OUTPUT_DEVICE_FUNCTION_CALLED then Inr c else
     (case getitem_str event ''eventData'' of Inl e \<Rightarrow> Inl e | Inr data \<Rightarrow>
     (case getitem_str data ''deviceFunctionUID'' of Inl e \<Rightarrow> Inl e | Inr function_uid \<Rightarrow>
     (case map_get (function_uid_map c) function_uid of Inl e \<Rightarrow> Inl e | Inr found \<Rightarrow>
     (case found of
        None \<Rightarrow> Inr (c\<lparr>effects := effects c @ [WarnNoDevice function_uid]\<rparr>)
      | Some r \<Rightarrow>
     (case getitem_str data ''values'' of Inl e \<Rightarrow> Inl e | Inr values \<Rightarrow>
      let device = heap c r in
      if cls device = ActuatorChannel \<or> cls device = SensorChannel
      then (case update_values function_uid values (cached device) of Inl e \<Rightarrow> Inl e
            | Inr s \<Rightarrow> Inr (c\<lparr>heap := (heap c)(r := device\<lparr>cached := s\<rparr>),
                              effects := effects c @
                                [UpdateValues r function_uid values, UpdateListeners]\<rparr>))
      else (case decode_button device data values of Inl e \<Rightarrow> Inl e | Inr decoded \<Rightarrow>
           (case decoded of
              None \<Rightarrow> Inr (c\<lparr>effects := effects c @ [WarnExpected2 event]\<rparr>)
            | Some bus \<Rightarrow> Inr (c\<lparr>effects := effects c @ [BusFire bus]\<rparr>)))))))))"

text \<open>
  The \<^verbatim>\<open>for\<close> loop: an exception leaves the loop, and what the earlier events did stays
  done.
\<close>

fun handle_events ::
  "(pyval \<Rightarrow> pyval \<Rightarrow> 's \<Rightarrow> exn + 's) \<Rightarrow> 's coordinator \<Rightarrow> pyval list
     \<Rightarrow> exn option \<times> 's coordinator" where
  "handle_events update_values c [] = (None, c)"
| "handle_events update_values c (event # rest) =
     (case handle_one update_values c event of
        Inl e \<Rightarrow> (Some e, c)
      | Inr c1 \<Rightarrow> handle_events update_values c1 rest)"

definition handle_event ::
  "(pyval \<Rightarrow> pyval \<Rightarrow> 's \<Rightarrow> exn + 's) \<Rightarrow> 's coordinator \<Rightarrow> pyval
     \<Rightarrow> exn option \<times> 's coordinator" where
  "handle_event update_values c event_data =
     (case getitem_str event_data ''events'' of Inl e \<Rightarrow> (Some e, c) | Inr evs \<Rightarrow>
     (case py_iter evs of Inl e \<Rightarrow> (Some e, c) | Inr events \<Rightarrow>
      handle_events update_values c events))"

subsection \<open>\<^verbatim>\<open>_async_update_data\<close>\<close>

text \<open>
  The poll loop runs on what \<^verbatim>\<open>hub.get_events()\<close> answers, one answer at each
  iteration: a batch, or an exception of the transport. With no answer left the loop is
  suspended in \<^verbatim>\<open>await self.hub.get_events()\<close> (\<open>Polling\<close>); an exception that leaves
  the \<^verbatim>\<open>while True\<close> ends it (\<open>Stopped\<close>). The third component of the result is the
  answers the loop never asked for.
\<close>

datatype hub_answer = Batch pyval | Fault exn

datatype loop_outcome = Polling | Stopped exn

fun async_update_data ::
  "(pyval \<Rightarrow> pyval \<Rightarrow> 's \<Rightarrow> exn + 's) \<Rightarrow> 's coordinator \<Rightarrow> hub_answer list
     \<Rightarrow> loop_outcome \<times> 's coordinator \<times> hub_answer list" where
  "async_update_data update_values c [] = (Polling, c, [])"
| "async_update_data update_values c (Fault e # rest) = (Stopped e, c, rest)"
| "async_update_data update_values c (Batch event # rest) =
     (if truthy event
      then (case handle_event update_values c event of
              (Some e, c1) \<Rightarrow>
                (Stopped (UpdateFailed e),
                 c1\<lparr>effects := effects c1 @ [LogException event e]\<rparr>, rest)
            | (None, c1) \<Rightarrow> async_update_data update_values c1 rest)
      else async_update_data update_values c rest)"

subsection \<open>Reading the effects\<close>

text \<open>The dicts given to \<^verbatim>\<open>hass.bus.async_fire\<close>, in the order of the calls.\<close>

fun bus_events :: "effect list \<Rightarrow> bus_data list" where
  "bus_events [] = []"
| "bus_events (BusFire b # es) = b # bus_events es"
| "bus_events (WarnNoDevice u # es) = bus_events es"
| "bus_events (WarnExpected2 ev # es) = bus_events es"
| "bus_events (UpdateValues r u vs # es) = bus_events es"
| "bus_events (UpdateListeners # es) = bus_events es"
| "bus_events (LogException ev e # es) = bus_events es"

text \<open>What one step added to the effects.\<close>

definition new_effects :: "'s coordinator \<Rightarrow> 's coordinator \<Rightarrow> effect list" where
  "new_effects c c1 = drop (length (effects c)) (effects c1)"

text \<open>The bus events that one raw event gives when the loop body runs on it in \<open>c\<close>.\<close>

definition emitted ::
  "(pyval \<Rightarrow> pyval \<Rightarrow> 's \<Rightarrow> exn + 's) \<Rightarrow> 's coordinator \<Rightarrow> pyval \<Rightarrow> bus_data list" where
  "emitted update_values c event =
     (case handle_one update_values c event of
        Inl e \<Rightarrow> []
      | Inr c1 \<Rightarrow> bus_events (new_effects c c1))"

subsection \<open>Wire shapes and a small installation\<close>

text \<open>
  The JSON of a value entry, of an \<^verbatim>\<open>outputDeviceFunctionCalled\<close> event and of a batch,
  as \<^verbatim>\<open>handle_event\<close> reads them.
\<close>

definition value_entry :: "string \<Rightarrow> pyval \<Rightarrow> pyval" where
  "value_entry value_type v = PDict [(''valueTypeID'', PStr value_type), (''value'', v)]"

definition called_data :: "string \<Rightarrow> pyval \<Rightarrow> pyval \<Rightarrow> pyval" where
  "called_data function_uid channel_number values =
     PDict [(''deviceFunctionUID'', PStr function_uid),
            (''values'', values),
            (''channelNumber'', channel_number)]"

definition called_event :: "string \<Rightarrow> pyval \<Rightarrow> pyval \<Rightarrow> pyval" where
  "called_event function_uid channel_number values =
     PDict [(''event'', PStr ''outputDeviceFunctionCalled''),
            (''eventData'', called_data function_uid channel_number values)]"

definition batch_of :: "pyval list \<Rightarrow> pyval" where
  "batch_of events = PDict [(''events'', PList events)]"

text \<open>
  Modelled from the spec: \<^verbatim>\<open>update_values(function_uid, values)\<close> of a stateful channel
  (class not part of the sources) overwrites the cached state with the values.
\<close>

definition update_values_overwrite :: "pyval \<Rightarrow> pyval \<Rightarrow> pyval \<Rightarrow> exn + pyval" where
  "update_values_overwrite function_uid values s = Inr values"

text \<open>A light (actuator channel, reference 0) and a wall switch (event channel).\<close>

definition demo_heap :: "chan_ref \<Rightarrow> pyval channel" where
  "demo_heap r =
     (if r = 0 then \<lparr>cls = ActuatorChannel, hass_device_entry_id = ''entry-light'',
                     device_uid = ''dev-light'', cached = PNone\<rparr>
      else \<lparr>cls = EventChannel, hass_device_entry_id = ''entry-switch'',
             device_uid = ''dev-switch'', cached = PNone\<rparr>)"

definition light_device :: device where
  "light_device =
     \<lparr>get_function_uids_for_event = [''fn-light'' \<mapsto> 0, ''fn-shared'' \<mapsto> 0],
      register_events = None\<rparr>"

definition switch_device :: device where
  "switch_device =
     \<lparr>get_function_uids_for_event = [''fn-button'' \<mapsto> 1, ''fn-shared'' \<mapsto> 1],
      register_events = None\<rparr>"

definition demo_devices :: "device list" where
  "demo_devices = [light_device, switch_device]"

definition demo_coordinator :: "pyval coordinator" where
  "demo_coordinator =
     \<lparr>function_uid_map = [''fn-light'' \<mapsto> 0, ''fn-button'' \<mapsto> 1],
      heap = demo_heap, effects = []\<rparr>"

definition switch_bus :: "string \<Rightarrow> pyval \<Rightarrow> bus_data" where
  "switch_bus event_type sub =
     \<lparr>device_id = ''entry-switch'', unique_id = ''dev-switch'', type = event_type,
      subtype = sub\<rparr>"

text \<open>Events of the wall switch and of the light used in the examples below.\<close>

definition press_down :: pyval where
  "press_down =
     called_event ''fn-button'' (PInt 3)
       (PList [value_entry ''VT_ROCKER_STATE'' (PStr ''DOWN_BUTTON''),
               value_entry ''VT_ROCKER_SWITCH_TIME'' (PInt 0)])"

definition release_up :: pyval where
  "release_up =
     called_event ''fn-button'' (PInt 3)
       (PList [value_entry ''VT_ROCKER_STATE'' (PStr ''UP_BUTTON''),
               value_entry ''VT_ROCKER_SWITCH_TIME'' (PInt 550)])"

definition release_text_time :: pyval where
  "release_text_time =
     called_event ''fn-button'' (PInt 3)
       (PList [value_entry ''VT_ROCKER_STATE'' (PStr ''UP_BUTTON''),
               value_entry ''VT_ROCKER_SWITCH_TIME'' (PStr ''550'')])"

text \<open>The two worked examples with the value types as the specification writes them.\<close>

definition spec_press_down :: pyval where
  "spec_press_down =
     called_event ''fn-button'' (PInt 3)
       (PList [value_entry ''rocker state'' (PStr ''DOWN_BUTTON''),
               value_entry ''rocker switch time'' (PInt 0)])"

definition spec_release_up :: pyval where
  "spec_release_up =
     called_event ''fn-button'' (PInt 3)
       (PList [value_entry ''rocker state'' (PStr ''UP_BUTTON''),
               value_entry ''rocker switch time'' (PInt 550)])"

definition dim_light :: "pyval list \<Rightarrow> pyval" where
  "dim_light values = called_event ''fn-light'' (PInt 1) (PList values)"

definition one_value_event :: pyval where
  "one_value_event =
     called_event ''fn-button'' (PInt 3)
       (PList [value_entry ''VT_ROCKER_STATE'' (PStr ''DOWN_BUTTON'')])"

definition three_value_event :: pyval where
  "three_value_event =
     called_event ''fn-button'' (PInt 3)
       (PList [value_entry ''VT_ROCKER_STATE'' (PStr ''DOWN_BUTTON''),
               value_entry ''VT_ROCKER_SWITCH_TIME'' (PInt 0),
               value_entry ''VT_ROCKER_SWITCH_TIME'' (PInt 0)])"

definition unknown_uid_event :: pyval where
  "unknown_uid_event = called_event ''fn-gone'' (PInt 3) (PList [])"

definition no_channel_number_event :: pyval where
  "no_channel_number_event =
     PDict [(''event'', PStr ''outputDeviceFunctionCalled''),
            (''eventData'',
             PDict [(''deviceFunctionUID'', PStr ''fn-button''),
                    (''values'',
                     PList [value_entry ''VT_ROCKER_STATE'' (PStr ''DOWN_BUTTON'')])])]"

section \<open>Properties\<close>

subsection \<open>Auxiliary facts\<close>

lemma bus_events_append: "bus_events (xs @ ys) = bus_events xs @ bus_events ys"
  by (induction xs rule: bus_events.induct) simp_all

lemma decode_button_ids:
  "hass_device_entry_id d2 = hass_device_entry_id d1 \<Longrightarrow> device_uid d2 = device_uid d1
   \<Longrightarrow> decode_button d2 data values = decode_button d1 data values"
  by (simp add: decode_button_def cong: sum.case_cong if_cong)

lemma handle_one_shape:
  assumes "handle_one upd c event = Inr c1"
  shows "\<exists>new. effects c1 = effects c @ new \<and> function_uid_map c1 = function_uid_map c \<and>
     (\<forall>r. cls (heap c1 r) = cls (heap c r) \<and>
          hass_device_entry_id (heap c1 r) = hass_device_entry_id (heap c r) \<and>
          device_uid (heap c1 r) = device_uid (heap c r))"
  using assms
  by (auto simp: handle_one_def Let_def split: sum.splits option.splits if_splits)

lemma handle_one_button_only:
  assumes "handle_one upd c event = Inr c1" "BusFire b \<in> set (new_effects c c1)"
  shows "c1 = c\<lparr>effects := effects c @ [BusFire b]\<rparr>"
  using assms
  by (auto simp: handle_one_def new_effects_def Let_def split: sum.splits option.splits if_splits)

lemma emitted_same:
  assumes reg: "function_uid_map c2 = function_uid_map c"
    and ids: "\<forall>r. cls (heap c2 r) = cls (heap c r) \<and>
          hass_device_entry_id (heap c2 r) = hass_device_entry_id (heap c r) \<and>
          device_uid (heap c2 r) = device_uid (heap c r)"
  shows "emitted upd c2 event = emitted upd c event"
proof -
  have dec: "\<And>r dat vals. decode_button (heap c2 r) dat vals = decode_button (heap c r) dat vals"
    by (rule decode_button_ids) (simp_all add: ids)
  have k: "\<And>r. cls (heap c2 r) = cls (heap c r)" using ids by simp
  show ?thesis
    by (simp add: handle_one_def emitted_def new_effects_def Let_def dec k reg
        split: sum.split option.split)
qed

lemma emitted_stable:
  assumes reg: "function_uid_map c2 = function_uid_map c"
    and ids: "\<forall>r. cls (heap c2 r) = cls (heap c r) \<and>
          hass_device_entry_id (heap c2 r) = hass_device_entry_id (heap c r) \<and>
          device_uid (heap c2 r) = device_uid (heap c r)"
    and ok: "handle_one upd c2 event = Inr c3"
  shows "bus_events (new_effects c2 c3) = emitted upd c event"
proof -
  have "bus_events (new_effects c2 c3) = emitted upd c2 event"
    using ok by (simp add: emitted_def)
  then show ?thesis using emitted_same [OF reg ids] by simp
qed

lemma handle_events_bus:
  assumes reg: "function_uid_map c2 = function_uid_map c"
    and ids: "\<forall>r. cls (heap c2 r) = cls (heap c r) \<and>
          hass_device_entry_id (heap c2 r) = hass_device_entry_id (heap c r) \<and>
          device_uid (heap c2 r) = device_uid (heap c r)"
  shows "\<exists>k\<le>length events.
      (fst (handle_events upd c2 events) = None \<longrightarrow> k = length events) \<and>
      bus_events (effects (snd (handle_events upd c2 events))) =
        bus_events (effects c2) @ concat (map (emitted upd c) (take k events))"
  using reg ids
proof (induction events arbitrary: c2)
  case Nil
  show ?case by simp
next
  case (Cons event rest)
  show ?case
  proof (cases "handle_one upd c2 event")
    case (Inl e)
    then have run: "handle_events upd c2 (event # rest) = (Some e, c2)" by simp
    show ?thesis unfolding run by (rule exI [of _ 0]) simp
  next
    case (Inr c3)
    have run: "handle_events upd c2 (event # rest) = handle_events upd c3 rest"
      using Inr by simp
    from handle_one_shape [OF Inr] obtain new where
      new: "effects c3 = effects c2 @ new" and
      reg3: "function_uid_map c3 = function_uid_map c2" and
      ids3: "\<forall>r. cls (heap c3 r) = cls (heap c2 r) \<and>
          hass_device_entry_id (heap c3 r) = hass_device_entry_id (heap c2 r) \<and>
          device_uid (heap c3 r) = device_uid (heap c2 r)"
      by (elim exE conjE)
    have "bus_events (new_effects c2 c3) = emitted upd c event"
      by (rule emitted_stable [OF Cons.prems(1) Cons.prems(2) Inr])
    then have step: "bus_events new = emitted upd c event"
      by (simp add: new_effects_def new)
    have r3: "function_uid_map c3 = function_uid_map c"
      using reg3 Cons.prems(1) by simp
    have i3: "\<forall>r. cls (heap c3 r) = cls (heap c r) \<and>
          hass_device_entry_id (heap c3 r) = hass_device_entry_id (heap c r) \<and>
          device_uid (heap c3 r) = device_uid (heap c r)"
      using ids3 Cons.prems(2) by simp
    from Cons.IH [OF r3 i3] obtain k where k1: "k \<le> length rest"
      and k2: "fst (handle_events upd c3 rest) = None \<longrightarrow> k = length rest"
      and k3: "bus_events (effects (snd (handle_events upd c3 rest))) =
         bus_events (effects c3) @ concat (map (emitted upd c) (take k rest))"
      by (elim exE conjE)
    have b: "bus_events (effects c3) = bus_events (effects c2) @ emitted upd c event"
      by (simp add: new bus_events_append step)
    show ?thesis unfolding run
    proof (rule exI [of _ "Suc k"], intro conjI impI)
      show "Suc k \<le> length (event # rest)" using k1 by simp
    next
      assume "fst (handle_events upd c3 rest) = None"
      with k2 show "Suc k = length (event # rest)" by simp
    next
      show "bus_events (effects (snd (handle_events upd c3 rest))) =
        bus_events (effects c2) @ concat (map (emitted upd c) (take (Suc k) (event # rest)))"
        by (simp only: k3 b take_Suc_Cons list.map concat.simps append_assoc)
    qed
  qed
qed

lemma setup_keeps:
  "setup_event_listeners c ds = (None, c1) \<Longrightarrow>
   \<forall>d\<in>set ds. get_function_uids_for_event d u = None \<Longrightarrow>
   function_uid_map c1 u = function_uid_map c u"
proof (induction ds arbitrary: c)
  case Nil
  then show ?case by simp
next
  case (Cons d ds)
  then show ?case
    by (cases "register_events d") (auto simp: Let_def map_add_def)
qed

lemma setup_last_wins:
  "setup_event_listeners c (pre @ d # post) = (None, c1) \<Longrightarrow>
   get_function_uids_for_event d u = Some ch \<Longrightarrow>
   \<forall>d'\<in>set post. get_function_uids_for_event d' u = None \<Longrightarrow>
   function_uid_map c1 u = Some ch"
proof (induction pre arbitrary: c)
  case Nil
  then show ?case
    by (cases "register_events d") (auto simp: Let_def dest: setup_keeps)
next
  case (Cons p pre)
  then show ?case
    by (cases "register_events p") (auto simp: Let_def)
qed


lemma decode_button_subtype:
  assumes "decode_button device data (PList [v0, v1]) = Inr (Some b)"
    and "getitem_str data ''channelNumber'' = Inr n"
    and "\<not> (getitem_str v0 ''valueTypeID'' = Inr (PStr VALUE_TYPE_ROCKER_STATE) \<and>
            getitem_str v0 ''value'' = Inr (PStr ''DOWN_BUTTON''))"
  shows "subtype b = n"
  using assms
  by (auto simp: decode_button_def split: sum.splits if_splits)

lemmas const_defs =
  EVENT_TYPE_OUTPUT_DEVICE_FUNCTION_CALLED_def EVENT_TYPE_INITIAL_PRESS_def
  EVENT_TYPE_SHORT_RELEASE_def VALUE_TYPE_ROCKER_STATE_def VALUE_TYPE_ROCKER_SWITCH_TIME_def

lemmas wire_defs = value_entry_def called_data_def called_event_def batch_of_def

lemmas demo_defs =
  demo_coordinator_def demo_heap_def switch_bus_def update_values_overwrite_def
  press_down_def release_up_def release_text_time_def spec_press_down_def
  spec_release_up_def dim_light_def one_value_event_def three_value_event_def
  unknown_uid_event_def no_channel_number_event_def light_device_def switch_device_def
  demo_devices_def

lemmas run_defs = handle_event_def handle_one_def decode_button_def Let_def

subsection \<open>The poll loop\<close>

text \<open>
  C1 (as amended). When \<^verbatim>\<open>handle_event\<close> raises on a batch, the exception is caught,
  logged with the batch and raised again as \<^verbatim>\<open>UpdateFailed\<close>. That raise leaves the
  \<^verbatim>\<open>while True\<close>: the loop stops, and no later answer of the hub is asked for.
\<close>

theorem poll_loop_stops_on_exception:
  assumes "truthy event_data" and "handle_event upd c event_data = (Some e, c1)"
  shows "async_update_data upd c (Batch event_data # rest) =
           (Stopped (UpdateFailed e),
            c1\<lparr>effects := effects c1 @ [LogException event_data e]\<rparr>, rest)"
  using assms by simp

theorem poll_loop_stops_on_exception_witness:
  "truthy (batch_of [release_text_time]) \<and>
   handle_event update_values_overwrite demo_coordinator (batch_of [release_text_time]) =
     (Some TypeError, demo_coordinator) \<and>
   async_update_data update_values_overwrite demo_coordinator
       [Batch (batch_of [release_text_time]), Batch (batch_of [press_down])] =
     (Stopped (UpdateFailed TypeError),
      demo_coordinator\<lparr>effects := effects demo_coordinator @
         [LogException (batch_of [release_text_time]) TypeError]\<rparr>,
      [Batch (batch_of [press_down])])"
proof -
  have t: "truthy (batch_of [release_text_time])" by (simp add: batch_of_def)
  have h: "handle_event update_values_overwrite demo_coordinator (batch_of [release_text_time]) =
     (Some TypeError, demo_coordinator)"
    by (simp add: run_defs wire_defs demo_defs const_defs)
  show ?thesis
    using t h poll_loop_stops_on_exception [OF t h, of "[Batch (batch_of [press_down])]"]
    by simp
qed

text \<open>
  The loop does not go back to polling: a release whose switch time arrives as text
  raises a TypeError, and the press in the next batch is never fetched.
\<close>

theorem poll_loop_ends_counterexample:
  "async_update_data update_values_overwrite demo_coordinator
       [Batch (batch_of [release_text_time]), Batch (batch_of [press_down])] =
     (Stopped (UpdateFailed TypeError),
      demo_coordinator\<lparr>effects := [LogException (batch_of [release_text_time]) TypeError]\<rparr>,
      [Batch (batch_of [press_down])])"
  by (simp add: run_defs wire_defs demo_defs const_defs)

text \<open>Without an exception the loop consumes batch after batch and ends up polling.\<close>

theorem poll_loop_continues_after_good_batch:
  "async_update_data update_values_overwrite demo_coordinator
       [Batch (batch_of [press_down]), Batch (batch_of [release_up])] =
     (Polling,
      demo_coordinator\<lparr>effects := [BusFire (switch_bus ''initial_press'' (PInt 4)),
                                      BusFire (switch_bus ''short_release'' (PInt 3))]\<rparr>,
      [])"
  by (simp add: run_defs wire_defs demo_defs const_defs)

subsection \<open>Decoding the two worked examples\<close>

text \<open>
  C2 (as amended). For the event with values
  \<^verbatim>\<open>[{valueTypeID: "VT_ROCKER_STATE", value: "DOWN_BUTTON"},
  {valueTypeID: "VT_ROCKER_SWITCH_TIME", value: 0}]\<close> and \<^verbatim>\<open>channelNumber = 3\<close>, addressed to
  a registered event channel, exactly one bus event is fired, with subtype 4 and type
  \<^verbatim>\<open>initial_press\<close>.
\<close>

theorem rocker_down_press:
  assumes "function_uid_map c uid = Some r" and "cls (heap c r) = EventChannel"
  shows "handle_event upd c
           (batch_of [called_event uid (PInt 3)
              (PList [value_entry VALUE_TYPE_ROCKER_STATE (PStr ''DOWN_BUTTON''),
                      value_entry VALUE_TYPE_ROCKER_SWITCH_TIME (PInt 0)])]) =
         (None, c\<lparr>effects := effects c @
            [BusFire \<lparr>device_id = hass_device_entry_id (heap c r),
                      unique_id = device_uid (heap c r),
                      type = ''initial_press'', subtype = PInt 4\<rparr>]\<rparr>)"
  using assms by (simp add: run_defs wire_defs const_defs)

theorem rocker_down_press_witness:
  "function_uid_map demo_coordinator ''fn-button'' = Some 1 \<and>
   cls (heap demo_coordinator 1) = EventChannel \<and>
   handle_event update_values_overwrite demo_coordinator (batch_of [press_down]) =
     (None, demo_coordinator\<lparr>effects := [BusFire (switch_bus ''initial_press'' (PInt 4))]\<rparr>)"
proof -
  have a: "function_uid_map demo_coordinator ''fn-button'' = Some 1"
    by (simp add: demo_coordinator_def)
  have b: "cls (heap demo_coordinator 1) = EventChannel"
    by (simp add: demo_coordinator_def demo_heap_def)
  show ?thesis
    using a b rocker_down_press [OF a b, of update_values_overwrite]
    by (simp add: demo_defs const_defs)
qed

text \<open>
  With the value type written \<^verbatim>\<open>"rocker state"\<close> the comparison with
  \<^verbatim>\<open>VALUE_TYPE_ROCKER_STATE\<close> fails and the subtype stays 3.
\<close>

theorem rocker_state_literal_counterexample:
  "handle_event update_values_overwrite demo_coordinator (batch_of [spec_press_down]) =
     (None, demo_coordinator\<lparr>effects := [BusFire (switch_bus ''initial_press'' (PInt 3))]\<rparr>) \<and>
   handle_event update_values_overwrite demo_coordinator (batch_of [spec_press_down]) \<noteq>
     (None, demo_coordinator\<lparr>effects := [BusFire (switch_bus ''initial_press'' (PInt 4))]\<rparr>)"
  by (simp add: run_defs wire_defs demo_defs const_defs)

text \<open>
  C3 (as amended). For the event with values
  \<^verbatim>\<open>[{valueTypeID: "VT_ROCKER_STATE", value: "UP_BUTTON"},
  {valueTypeID: "VT_ROCKER_SWITCH_TIME", value: 550}]\<close> and \<^verbatim>\<open>channelNumber = 3\<close>, addressed
  to a registered event channel, exactly one bus event is fired, with subtype 3 and type
  \<^verbatim>\<open>short_release\<close>.
\<close>

theorem rocker_up_release:
  assumes "function_uid_map c uid = Some r" and "cls (heap c r) = EventChannel"
  shows "handle_event upd c
           (batch_of [called_event uid (PInt 3)
              (PList [value_entry VALUE_TYPE_ROCKER_STATE (PStr ''UP_BUTTON''),
                      value_entry VALUE_TYPE_ROCKER_SWITCH_TIME (PInt 550)])]) =
         (None, c\<lparr>effects := effects c @
            [BusFire \<lparr>device_id = hass_device_entry_id (heap c r),
                      unique_id = device_uid (heap c r),
                      type = ''short_release'', subtype = PInt 3\<rparr>]\<rparr>)"
  using assms by (simp add: run_defs wire_defs const_defs)

theorem rocker_up_release_witness:
  "function_uid_map demo_coordinator ''fn-button'' = Some 1 \<and>
   cls (heap demo_coordinator 1) = EventChannel \<and>
   handle_event update_values_overwrite demo_coordinator (batch_of [release_up]) =
     (None, demo_coordinator\<lparr>effects := [BusFire (switch_bus ''short_release'' (PInt 3))]\<rparr>)"
proof -
  have a: "function_uid_map demo_coordinator ''fn-button'' = Some 1"
    by (simp add: demo_coordinator_def)
  have b: "cls (heap demo_coordinator 1) = EventChannel"
    by (simp add: demo_coordinator_def demo_heap_def)
  show ?thesis
    using a b rocker_up_release [OF a b, of update_values_overwrite]
    by (simp add: demo_defs const_defs)
qed

text \<open>
  With the value type written \<^verbatim>\<open>"rocker switch time"\<close> the comparison with
  \<^verbatim>\<open>VALUE_TYPE_ROCKER_SWITCH_TIME\<close> fails and the type stays \<^verbatim>\<open>initial_press\<close>.
\<close>

theorem switch_time_literal_counterexample:
  "handle_event update_values_overwrite demo_coordinator (batch_of [spec_release_up]) =
     (None, demo_coordinator\<lparr>effects := [BusFire (switch_bus ''initial_press'' (PInt 3))]\<rparr>) \<and>
   handle_event update_values_overwrite demo_coordinator (batch_of [spec_release_up]) \<noteq>
     (None, demo_coordinator\<lparr>effects := [BusFire (switch_bus ''short_release'' (PInt 3))]\<rparr>)"
  by (simp add: run_defs wire_defs demo_defs const_defs)

subsection \<open>Anomalies\<close>

text \<open>
  C4. An \<^verbatim>\<open>outputDeviceFunctionCalled\<close> event (a raw event with its function uid, values
  and channel number) addressed to a registered event channel, whose values array has a
  length other than 2, only logs the warning: no bus event, no change of the heap or the
  registry, and the rest of the batch is processed from there.
\<close>

theorem malformed_values_skipped:
  assumes "getitem_str event ''event'' = Inr (PStr EVENT_TYPE_OUTPUT_DEVICE_FUNCTION_CALLED)"
    and "getitem_str event ''eventData'' = Inr data"
    and "getitem_str data ''deviceFunctionUID'' = Inr (PStr uid)"
    and "getitem_str data ''channelNumber'' = Inr n"
    and "getitem_str data ''values'' = Inr (PList vs)"
    and "length vs \<noteq> 2"
    and "function_uid_map c uid = Some r"
    and "cls (heap c r) = EventChannel"
  shows "handle_one upd c event = Inr (c\<lparr>effects := effects c @ [WarnExpected2 event]\<rparr>) \<and>
         handle_events upd c (event # rest) =
           handle_events upd (c\<lparr>effects := effects c @ [WarnExpected2 event]\<rparr>) rest"
proof -
  have "decode_button (heap c r) data (PList vs) = Inr None"
    using assms(4,6) by (simp add: decode_button_def)
  then have "handle_one upd c event = Inr (c\<lparr>effects := effects c @ [WarnExpected2 event]\<rparr>)"
    using assms by (simp add: handle_one_def)
  then show ?thesis by simp
qed

theorem malformed_values_skipped_witness:
  "getitem_str one_value_event ''event'' = Inr (PStr EVENT_TYPE_OUTPUT_DEVICE_FUNCTION_CALLED) \<and>
   getitem_str one_value_event ''eventData'' =
     Inr (called_data ''fn-button'' (PInt 3)
            (PList [value_entry ''VT_ROCKER_STATE'' (PStr ''DOWN_BUTTON'')])) \<and>
   length [value_entry ''VT_ROCKER_STATE'' (PStr ''DOWN_BUTTON'')] \<noteq> 2 \<and>
   function_uid_map demo_coordinator ''fn-button'' = Some 1 \<and>
   cls (heap demo_coordinator 1) = EventChannel \<and>
   handle_events update_values_overwrite demo_coordinator
       [one_value_event, three_value_event, press_down] =
     (None, demo_coordinator\<lparr>effects :=
        [WarnExpected2 one_value_event, WarnExpected2 three_value_event,
         BusFire (switch_bus ''initial_press'' (PInt 4))]\<rparr>)"
proof -
  let ?vs = "[value_entry ''VT_ROCKER_STATE'' (PStr ''DOWN_BUTTON'')]"
  let ?data = "called_data ''fn-button'' (PInt 3) (PList ?vs)"
  have 1: "getitem_str one_value_event ''event'' =
      Inr (PStr EVENT_TYPE_OUTPUT_DEVICE_FUNCTION_CALLED)"
    by (simp add: one_value_event_def called_event_def const_defs)
  have 2: "getitem_str one_value_event ''eventData'' = Inr ?data"
    by (simp add: one_value_event_def called_event_def)
  have 3: "getitem_str ?data ''deviceFunctionUID'' = Inr (PStr ''fn-button'')"
    by (simp add: called_data_def)
  have 4: "getitem_str ?data ''channelNumber'' = Inr (PInt 3)"
    by (simp add: called_data_def)
  have 5: "getitem_str ?data ''values'' = Inr (PList ?vs)"
    by (simp add: called_data_def)
  have 6: "length ?vs \<noteq> 2" by simp
  have 7: "function_uid_map demo_coordinator ''fn-button'' = Some 1"
    by (simp add: demo_coordinator_def)
  have 8: "cls (heap demo_coordinator 1) = EventChannel"
    by (simp add: demo_coordinator_def demo_heap_def)
  have next_one: "handle_events update_values_overwrite
      (demo_coordinator\<lparr>effects := effects demo_coordinator @ [WarnExpected2 one_value_event]\<rparr>)
      [three_value_event, press_down] =
     (None, demo_coordinator\<lparr>effects :=
        [WarnExpected2 one_value_event, WarnExpected2 three_value_event,
         BusFire (switch_bus ''initial_press'' (PInt 4))]\<rparr>)"
    by (simp add: run_defs wire_defs demo_defs const_defs)
  show ?thesis
    using 1 2 6 7 8
      malformed_values_skipped [OF 1 2 3 4 5 6 7 8, of update_values_overwrite
        "[three_value_event, press_down]"]
      next_one
    by simp
qed

text \<open>
  The channel number is read (line 135) before the length is checked (line 136): an
  event of an event channel that carries no \<^verbatim>\<open>channelNumber\<close> raises a KeyError
  whatever its values are, and the batch ends there.
\<close>

lemma missing_channel_number_raises:
  "handle_events update_values_overwrite demo_coordinator
       [no_channel_number_event, press_down] =
     (Some KeyError, demo_coordinator)"
  by (simp add: run_defs wire_defs demo_defs const_defs)

text \<open>
  C5. An \<^verbatim>\<open>outputDeviceFunctionCalled\<close> event whose function uid is not in the registry
  only logs the warning: nothing is raised, no bus event, no change of the heap or the
  registry, and the rest of the batch is processed from there.
\<close>

theorem unmapped_uid_skipped:
  assumes "getitem_str event ''event'' = Inr (PStr EVENT_TYPE_OUTPUT_DEVICE_FUNCTION_CALLED)"
    and "getitem_str event ''eventData'' = Inr data"
    and "getitem_str data ''deviceFunctionUID'' = Inr (PStr uid)"
    and "function_uid_map c uid = None"
  shows "handle_one upd c event = Inr (c\<lparr>effects := effects c @ [WarnNoDevice (PStr uid)]\<rparr>) \<and>
         handle_events upd c (event # rest) =
           handle_events upd (c\<lparr>effects := effects c @ [WarnNoDevice (PStr uid)]\<rparr>) rest"
proof -
  have "handle_one upd c event = Inr (c\<lparr>effects := effects c @ [WarnNoDevice (PStr uid)]\<rparr>)"
    using assms by (simp add: handle_one_def)
  then show ?thesis by simp
qed

theorem unmapped_uid_skipped_witness:
  "getitem_str unknown_uid_event ''event'' =
     Inr (PStr EVENT_TYPE_OUTPUT_DEVICE_FUNCTION_CALLED) \<and>
   getitem_str unknown_uid_event ''eventData'' =
     Inr (called_data ''fn-gone'' (PInt 3) (PList [])) \<and>
   function_uid_map demo_coordinator ''fn-gone'' = None \<and>
   handle_events update_values_overwrite demo_coordinator [unknown_uid_event, press_down] =
     (None, demo_coordinator\<lparr>effects :=
        [WarnNoDevice (PStr ''fn-gone''), BusFire (switch_bus ''initial_press'' (PInt 4))]\<rparr>)"
proof -
  let ?data = "called_data ''fn-gone'' (PInt 3) (PList [])"
  have 1: "getitem_str unknown_uid_event ''event'' =
      Inr (PStr EVENT_TYPE_OUTPUT_DEVICE_FUNCTION_CALLED)"
    by (simp add: unknown_uid_event_def called_event_def const_defs)
  have 2: "getitem_str unknown_uid_event ''eventData'' = Inr ?data"
    by (simp add: unknown_uid_event_def called_event_def)
  have 3: "getitem_str ?data ''deviceFunctionUID'' = Inr (PStr ''fn-gone'')"
    by (simp add: called_data_def)
  have 4: "function_uid_map demo_coordinator ''fn-gone'' = None"
    by (simp add: demo_coordinator_def)
  have next_one: "handle_events update_values_overwrite
      (demo_coordinator\<lparr>effects := effects demo_coordinator @
         [WarnNoDevice (PStr ''fn-gone'')]\<rparr>) [press_down] =
     (None, demo_coordinator\<lparr>effects :=
        [WarnNoDevice (PStr ''fn-gone''), BusFire (switch_bus ''initial_press'' (PInt 4))]\<rparr>)"
    by (simp add: run_defs wire_defs demo_defs const_defs)
  show ?thesis
    using 1 2 4 unmapped_uid_skipped [OF 1 2 3 4, of update_values_overwrite "[press_down]"]
      next_one
    by simp
qed

subsection \<open>Order of the bus events\<close>

text \<open>
  C6. The bus events of a batch are those of its events, each as the loop body emits
  it, concatenated in the order of the batch: of the whole batch when \<^verbatim>\<open>handle_event\<close>
  returns, of the events before the raising one otherwise.
\<close>

theorem bus_events_keep_batch_order:
  assumes "getitem_str event_data ''events'' = Inr (PList events)"
  shows "\<exists>k\<le>length events.
      (fst (handle_event upd c event_data) = None \<longrightarrow> k = length events) \<and>
      bus_events (effects (snd (handle_event upd c event_data))) =
        bus_events (effects c) @ concat (map (emitted upd c) (take k events))"
proof -
  have "handle_event upd c event_data = handle_events upd c events"
    using assms by (simp add: handle_event_def)
  then show ?thesis
    using handle_events_bus [of c c events upd] by simp
qed

theorem bus_events_keep_batch_order_witness:
  "getitem_str (batch_of [press_down, dim_light [PInt 40], release_up]) ''events'' =
     Inr (PList [press_down, dim_light [PInt 40], release_up]) \<and>
   fst (handle_event update_values_overwrite demo_coordinator
          (batch_of [press_down, dim_light [PInt 40], release_up])) = None \<and>
   bus_events (effects (snd (handle_event update_values_overwrite demo_coordinator
          (batch_of [press_down, dim_light [PInt 40], release_up])))) =
     emitted update_values_overwrite demo_coordinator press_down @
     emitted update_values_overwrite demo_coordinator (dim_light [PInt 40]) @
     emitted update_values_overwrite demo_coordinator release_up \<and>
   emitted update_values_overwrite demo_coordinator press_down =
     [switch_bus ''initial_press'' (PInt 4)] \<and>
   emitted update_values_overwrite demo_coordinator (dim_light [PInt 40]) = [] \<and>
   emitted update_values_overwrite demo_coordinator release_up =
     [switch_bus ''short_release'' (PInt 3)]"
proof -
  let ?evs = "[press_down, dim_light [PInt 40], release_up]"
  let ?run = "handle_event update_values_overwrite demo_coordinator (batch_of ?evs)"
  have 1: "getitem_str (batch_of ?evs) ''events'' = Inr (PList ?evs)"
    by (simp add: batch_of_def)
  have 2: "fst ?run = None"
    by (simp add: run_defs wire_defs demo_defs const_defs)
  have 3: "effects demo_coordinator = []" by (simp add: demo_coordinator_def)
  from bus_events_keep_batch_order [OF 1, of update_values_overwrite demo_coordinator]
  obtain k where k: "k \<le> length ?evs" "fst ?run = None \<longrightarrow> k = length ?evs"
    "bus_events (effects (snd ?run)) =
       bus_events (effects demo_coordinator) @
       concat (map (emitted update_values_overwrite demo_coordinator) (take k ?evs))"
    by (elim exE conjE)
  from k(2) 2 have "k = 3" by simp
  with k(3) 3 have 4: "bus_events (effects (snd ?run)) =
     emitted update_values_overwrite demo_coordinator press_down @
     emitted update_values_overwrite demo_coordinator (dim_light [PInt 40]) @
     emitted update_values_overwrite demo_coordinator release_up"
    by simp
  have 5: "emitted update_values_overwrite demo_coordinator press_down =
      [switch_bus ''initial_press'' (PInt 4)]"
    by (simp add: emitted_def new_effects_def run_defs wire_defs demo_defs const_defs)
  have 6: "emitted update_values_overwrite demo_coordinator (dim_light [PInt 40]) = []"
    by (simp add: emitted_def new_effects_def run_defs wire_defs demo_defs const_defs)
  have 7: "emitted update_values_overwrite demo_coordinator release_up =
      [switch_bus ''short_release'' (PInt 3)]"
    by (simp add: emitted_def new_effects_def run_defs wire_defs demo_defs const_defs)
  show ?thesis using 1 2 4 5 6 7 by simp
qed

subsection \<open>The registry\<close>

text \<open>
  C7. After \<^verbatim>\<open>setup_event_listeners\<close> has run over the devices, starting from the empty
  registry, the lookup of a function uid gives the channel declared by the last device
  that declares it, and nothing for a uid that no device declares.
\<close>

theorem registry_lookup:
  assumes "setup_event_listeners (init_coordinator h) devices = (None, c)"
  shows "(devices = pre @ d # post \<and> get_function_uids_for_event d u = Some ch \<and>
          (\<forall>d'\<in>set post. get_function_uids_for_event d' u = None)
            \<longrightarrow> map_get (function_uid_map c) (PStr u) = Inr (Some ch)) \<and>
         ((\<forall>d'\<in>set devices. get_function_uids_for_event d' u = None)
            \<longrightarrow> map_get (function_uid_map c) (PStr u) = Inr None)"
proof (intro conjI impI)
  assume a: "devices = pre @ d # post \<and> get_function_uids_for_event d u = Some ch \<and>
          (\<forall>d'\<in>set post. get_function_uids_for_event d' u = None)"
  then have "setup_event_listeners (init_coordinator h) (pre @ d # post) = (None, c)"
    using assms by simp
  from setup_last_wins [OF this] a show "map_get (function_uid_map c) (PStr u) = Inr (Some ch)"
    by simp
next
  assume "\<forall>d'\<in>set devices. get_function_uids_for_event d' u = None"
  from setup_keeps [OF assms this] show "map_get (function_uid_map c) (PStr u) = Inr None"
    by (simp add: init_coordinator_def)
qed

theorem registry_lookup_witness:
  "fst (setup_event_listeners (init_coordinator demo_heap) demo_devices) = None \<and>
   map_get (function_uid_map (snd (setup_event_listeners (init_coordinator demo_heap)
      demo_devices))) (PStr ''fn-light'') = Inr (Some 0) \<and>
   map_get (function_uid_map (snd (setup_event_listeners (init_coordinator demo_heap)
      demo_devices))) (PStr ''fn-shared'') = Inr (Some 1) \<and>
   map_get (function_uid_map (snd (setup_event_listeners (init_coordinator demo_heap)
      demo_devices))) (PStr ''fn-gone'') = Inr None"
proof -
  define c where "c = snd (setup_event_listeners (init_coordinator demo_heap) demo_devices)"
  have ok: "fst (setup_event_listeners (init_coordinator demo_heap) demo_devices) = None"
    by (simp add: demo_devices_def light_device_def switch_device_def Let_def)
  then have run: "setup_event_listeners (init_coordinator demo_heap) demo_devices = (None, c)"
    unfolding c_def by (metis prod.collapse)
  have light: "demo_devices = [] @ light_device # [switch_device] \<and>
      get_function_uids_for_event light_device ''fn-light'' = Some 0 \<and>
      (\<forall>d'\<in>set [switch_device]. get_function_uids_for_event d' ''fn-light'' = None)"
    by (simp add: demo_devices_def light_device_def switch_device_def)
  have shared: "demo_devices = [light_device] @ switch_device # [] \<and>
      get_function_uids_for_event switch_device ''fn-shared'' = Some 1 \<and>
      (\<forall>d'\<in>set []. get_function_uids_for_event d' ''fn-shared'' = None)"
    by (simp add: demo_devices_def light_device_def switch_device_def)
  have gone: "\<forall>d'\<in>set demo_devices. get_function_uids_for_event d' ''fn-gone'' = None"
    by (simp add: demo_devices_def light_device_def switch_device_def)
  have a: "map_get (function_uid_map c) (PStr ''fn-light'') = Inr (Some 0)"
    using registry_lookup [OF run, of "[]" light_device "[switch_device]" "''fn-light''" 0]
      light by blast
  have b: "map_get (function_uid_map c) (PStr ''fn-shared'') = Inr (Some 1)"
    using registry_lookup [OF run, of "[light_device]" switch_device "[]" "''fn-shared''" 1]
      shared by blast
  have d: "map_get (function_uid_map c) (PStr ''fn-gone'') = Inr None"
    using registry_lookup [OF run, of _ _ _ "''fn-gone''"] gone by blast
  show ?thesis using ok a b d unfolding c_def by simp
qed

subsection \<open>The two branches of the dispatch\<close>

text \<open>
  C8. When the loop body fires a bus event for a raw event, that bus event is all it
  does: the heap of channel objects and the registry are as before, and no
  \<^verbatim>\<open>update_values\<close> call is among the effects.
\<close>

theorem button_event_leaves_state:
  assumes "handle_one upd c event = Inr c1" and "BusFire b \<in> set (new_effects c c1)"
  shows "c1 = c\<lparr>effects := effects c @ [BusFire b]\<rparr> \<and> heap c1 = heap c \<and>
         function_uid_map c1 = function_uid_map c"
proof -
  have "c1 = c\<lparr>effects := effects c @ [BusFire b]\<rparr>"
    using assms by (rule handle_one_button_only)
  then show ?thesis by simp
qed

theorem button_event_leaves_state_witness:
  "handle_one update_values_overwrite demo_coordinator press_down =
     Inr (demo_coordinator\<lparr>effects := [BusFire (switch_bus ''initial_press'' (PInt 4))]\<rparr>) \<and>
   BusFire (switch_bus ''initial_press'' (PInt 4)) \<in>
     set (new_effects demo_coordinator
       (demo_coordinator\<lparr>effects := [BusFire (switch_bus ''initial_press'' (PInt 4))]\<rparr>)) \<and>
   heap (demo_coordinator\<lparr>effects := [BusFire (switch_bus ''initial_press'' (PInt 4))]\<rparr>) =
     heap demo_coordinator \<and>
   function_uid_map
     (demo_coordinator\<lparr>effects := [BusFire (switch_bus ''initial_press'' (PInt 4))]\<rparr>) =
     function_uid_map demo_coordinator"
proof -
  let ?c1 = "demo_coordinator\<lparr>effects := [BusFire (switch_bus ''initial_press'' (PInt 4))]\<rparr>"
  have 1: "handle_one update_values_overwrite demo_coordinator press_down = Inr ?c1"
    by (simp add: run_defs wire_defs demo_defs const_defs)
  have 2: "BusFire (switch_bus ''initial_press'' (PInt 4)) \<in>
      set (new_effects demo_coordinator ?c1)"
    by (simp add: new_effects_def demo_coordinator_def)
  show ?thesis
    using 1 2 button_event_leaves_state [OF 1 2] by simp
qed

text \<open>
  C9. For an event whose values array has length 2 and whose first entry is not a
  rocker-state entry with value \<^verbatim>\<open>DOWN_BUTTON\<close>, the subtype of the bus event that is
  fired is the channel number of the event, unchanged.
\<close>

theorem subtype_is_channel_number:
  assumes "handle_one upd c event = Inr c1" and "BusFire b \<in> set (new_effects c c1)"
    and "getitem_str event ''eventData'' = Inr data"
    and "getitem_str data ''channelNumber'' = Inr n"
    and "getitem_str data ''values'' = Inr (PList [v0, v1])"
    and "\<not> (getitem_str v0 ''valueTypeID'' = Inr (PStr VALUE_TYPE_ROCKER_STATE) \<and>
            getitem_str v0 ''value'' = Inr (PStr ''DOWN_BUTTON''))"
  shows "subtype b = n"
proof -
  have "\<exists>r. decode_button (heap c r) data (PList [v0, v1]) = Inr (Some b)"
    using assms(1,2,3,5)
    by (auto simp: handle_one_def new_effects_def Let_def
        split: sum.splits option.splits if_splits)
  then obtain r where "decode_button (heap c r) data (PList [v0, v1]) = Inr (Some b)" ..
  then show ?thesis using assms(4,6) by (rule decode_button_subtype)
qed

theorem subtype_is_channel_number_witness:
  "handle_one update_values_overwrite demo_coordinator release_up =
     Inr (demo_coordinator\<lparr>effects := [BusFire (switch_bus ''short_release'' (PInt 3))]\<rparr>) \<and>
   getitem_str
     (called_data ''fn-button'' (PInt 3)
        (PList [value_entry ''VT_ROCKER_STATE'' (PStr ''UP_BUTTON''),
                value_entry ''VT_ROCKER_SWITCH_TIME'' (PInt 550)])) ''channelNumber'' =
     Inr (PInt 3) \<and>
   getitem_str (value_entry ''VT_ROCKER_STATE'' (PStr ''UP_BUTTON'')) ''value'' \<noteq>
     Inr (PStr ''DOWN_BUTTON'') \<and>
   subtype (switch_bus ''short_release'' (PInt 3)) = PInt 3"
proof -
  let ?v0 = "value_entry ''VT_ROCKER_STATE'' (PStr ''UP_BUTTON'')"
  let ?v1 = "value_entry ''VT_ROCKER_SWITCH_TIME'' (PInt 550)"
  let ?data = "called_data ''fn-button'' (PInt 3) (PList [?v0, ?v1])"
  let ?b = "switch_bus ''short_release'' (PInt 3)"
  let ?c1 = "demo_coordinator\<lparr>effects := [BusFire ?b]\<rparr>"
  have 1: "handle_one update_values_overwrite demo_coordinator release_up = Inr ?c1"
    by (simp add: run_defs wire_defs demo_defs const_defs)
  have 2: "BusFire ?b \<in> set (new_effects demo_coordinator ?c1)"
    by (simp add: new_effects_def demo_coordinator_def)
  have 3: "getitem_str release_up ''eventData'' = Inr ?data"
    by (simp add: release_up_def called_event_def)
  have 4: "getitem_str ?data ''channelNumber'' = Inr (PInt 3)"
    by (simp add: called_data_def)
  have 5: "getitem_str ?data ''values'' = Inr (PList [?v0, ?v1])"
    by (simp add: called_data_def)
  have 6: "\<not> (getitem_str ?v0 ''valueTypeID'' = Inr (PStr VALUE_TYPE_ROCKER_STATE) \<and>
      getitem_str ?v0 ''value'' = Inr (PStr ''DOWN_BUTTON''))"
    by (simp add: value_entry_def)
  have 7: "getitem_str ?v0 ''value'' \<noteq> Inr (PStr ''DOWN_BUTTON'')"
    by (simp add: value_entry_def)
  show ?thesis
    using 1 4 7 subtype_is_channel_number [OF 1 2 3 4 5 6] by simp
qed

text \<open>
  C10. For an event addressed to a registered actuator or sensor channel,
  \<^verbatim>\<open>update_values\<close> is called with the values of the event whatever they are, of any
  length: the cached state becomes what it returns, the listeners are notified, and no
  warning is logged.
\<close>

theorem stateful_channel_takes_any_values:
  assumes "getitem_str event ''event'' = Inr (PStr EVENT_TYPE_OUTPUT_DEVICE_FUNCTION_CALLED)"
    and "getitem_str event ''eventData'' = Inr data"
    and "getitem_str data ''deviceFunctionUID'' = Inr (PStr uid)"
    and "getitem_str data ''values'' = Inr values"
    and "function_uid_map c uid = Some r"
    and "cls (heap c r) = ActuatorChannel \<or> cls (heap c r) = SensorChannel"
  shows "handle_one upd c event =
           (case upd (PStr uid) values (cached (heap c r)) of
              Inl e \<Rightarrow> Inl e
            | Inr s \<Rightarrow> Inr (c\<lparr>heap := (heap c)(r := (heap c r)\<lparr>cached := s\<rparr>),
                              effects := effects c @
                                [UpdateValues r (PStr uid) values, UpdateListeners]\<rparr>))"
  using assms by (auto simp: handle_one_def Let_def)

theorem stateful_channel_takes_any_values_witness:
  "getitem_str (dim_light [PInt 40, PInt 41, PInt 42]) ''event'' =
     Inr (PStr EVENT_TYPE_OUTPUT_DEVICE_FUNCTION_CALLED) \<and>
   function_uid_map demo_coordinator ''fn-light'' = Some 0 \<and>
   cls (heap demo_coordinator 0) = ActuatorChannel \<and>
   handle_one update_values_overwrite demo_coordinator (dim_light [PInt 40, PInt 41, PInt 42]) =
     Inr (demo_coordinator
       \<lparr>heap := (heap demo_coordinator)
          (0 := (heap demo_coordinator 0)\<lparr>cached := PList [PInt 40, PInt 41, PInt 42]\<rparr>),
        effects := [UpdateValues 0 (PStr ''fn-light'') (PList [PInt 40, PInt 41, PInt 42]),
                    UpdateListeners]\<rparr>)"
proof -
  let ?vs = "PList [PInt 40, PInt 41, PInt 42]"
  let ?ev = "dim_light [PInt 40, PInt 41, PInt 42]"
  let ?data = "called_data ''fn-light'' (PInt 1) ?vs"
  have 1: "getitem_str ?ev ''event'' = Inr (PStr EVENT_TYPE_OUTPUT_DEVICE_FUNCTION_CALLED)"
    by (simp add: dim_light_def called_event_def const_defs)
  have 2: "getitem_str ?ev ''eventData'' = Inr ?data"
    by (simp add: dim_light_def called_event_def)
  have 3: "getitem_str ?data ''deviceFunctionUID'' = Inr (PStr ''fn-light'')"
    by (simp add: called_data_def)
  have 4: "getitem_str ?data ''values'' = Inr ?vs"
    by (simp add: called_data_def)
  have 5: "function_uid_map demo_coordinator ''fn-light'' = Some 0"
    by (simp add: demo_coordinator_def)
  have 6: "cls (heap demo_coordinator 0) = ActuatorChannel"
    by (simp add: demo_coordinator_def demo_heap_def)
  have 7: "cls (heap demo_coordinator 0) = ActuatorChannel \<or>
      cls (heap demo_coordinator 0) = SensorChannel"
    using 6 by simp
  have 8: "effects demo_coordinator = []" by (simp add: demo_coordinator_def)
  show ?thesis
    using 1 5 6 8
      stateful_channel_takes_any_values [OF 1 2 3 4 5 7, of update_values_overwrite]
    by (simp add: update_values_overwrite_def)
qed

end
